theory Spec2Isabelle
  imports Complex_Main "HOL-Library.Char_ord" "HOL-Library.List_Lexorder" "HOL-Library.Multiset"
begin

section \<open>Purchase analysis tool: customer segmentation and recommendations\<close>

text \<open>
  A shallow embedding of \<^verbatim>\<open>classification.py\<close> (class CustomerSegmentation) and
  \<^verbatim>\<open>recommendation.py\<close> (class RecommendationEngine).

  Conventions of the embedding.
  \<^item> The purchase table (the DataFrame read from the CSV file) is the list of its rows in
    file order; every row has all five fields.
  \<^item> Floating point columns are exact reals; rounding is not modelled.  A float that
    may be not-a-number is a \<open>real option\<close>, \<open>None\<close> being NaN.
  \<^item> A timestamp is an integer count of nanoseconds.
  \<^item> Python exceptions are values of the type \<open>error\<close>; a function that may raise
    returns \<open>error + 'a\<close>.
  \<^item> The library routines the code calls and that are not part of the repository
    (scikit-learn's scaler and k-means, SciPy's \<^verbatim>\<open>svds\<close>, the order pandas'
    \<^verbatim>\<open>sort_values\<close> gives to equal keys) are parameters of the functions that call
    them.
\<close>

subsection \<open>Errors, floats, the transaction table\<close>

datatype error = ValueError | IndexError | KeyError

text \<open>Sequencing of steps that may raise: the first exception ends the run.\<close>

definition and_then :: "error + 'a \<Rightarrow> ('a \<Rightarrow> error + 'b) \<Rightarrow> error + 'b" where
  "and_then m f = (case m of Inl e \<Rightarrow> Inl e | Inr x \<Rightarrow> f x)"

type_synonym float = "real option"

text \<open>The comparison \<^verbatim>\<open>x > t\<close> of a number with a float: false when \<open>t\<close> is NaN.\<close>

definition gt :: "real \<Rightarrow> float \<Rightarrow> bool" where
  "gt x t = (case t of None \<Rightarrow> False | Some v \<Rightarrow> v < x)"

text \<open>Float division \<^verbatim>\<open>a / b\<close> of pandas columns: a zero divisor gives no finite
  number (NaN or an infinity), here \<open>None\<close>.\<close>

definition pd_div :: "real \<Rightarrow> real \<Rightarrow> float" where
  "pd_div a b = (if b = 0 then None else Some (a / b))"

record transaction =
  customer_id :: string
  product_id :: string
  category :: string
  amount :: real
  purchase_date :: int

text \<open>The sorted distinct keys of a column, as \<^verbatim>\<open>groupby\<close> and
  \<^verbatim>\<open>pivot_table\<close> order their index.\<close>

definition sorted_unique :: "string list \<Rightarrow> string list" where
  "sorted_unique ks = sort (remdups ks)"

text \<open>\<^verbatim>\<open>Series.unique()\<close>: the distinct values in order of first appearance.\<close>

fun unique :: "'a list \<Rightarrow> 'a list" where
  "unique [] = []"
| "unique (x # xs) = x # unique (filter (\<lambda>y. y \<noteq> x) xs)"

subsection \<open>Feature builder\<close>

text \<open>The purchase table after \<^verbatim>\<open>_prepare_features\<close> has added its four columns
  (\<^verbatim>\<open>Total Spending\<close>, \<^verbatim>\<open>Purchase Frequency\<close>, \<^verbatim>\<open>Average Purchase Amount\<close>,
  \<^verbatim>\<open>Days Since Last Purchase\<close>) to every row.\<close>

record row = transaction +
  row_total_spending :: real
  row_purchase_frequency :: nat
  row_average_purchase_amount :: real
  row_days_since_last_purchase :: int

text \<open>\<^verbatim>\<open>df.groupby('Customer ID')\<close>: the rows of one customer, in table order.\<close>

definition group_of :: "('a transaction_scheme) list \<Rightarrow> string \<Rightarrow> ('a transaction_scheme) list" where
  "group_of df c = filter (\<lambda>t. customer_id t = c) df"

text \<open>\<^verbatim>\<open>transform('sum')\<close>, \<^verbatim>\<open>transform('count')\<close> and \<^verbatim>\<open>transform('max')\<close>: the
  aggregate of the row's own group, written back to the row.  The group of a row of the
  table holds that row, so the count is at least 1 (lemma \<open>transform_count_pos\<close>) and
  the maximum is taken over dates that exist.\<close>

definition transform_sum :: "transaction list \<Rightarrow> transaction \<Rightarrow> real" where
  "transform_sum df t = sum_list (map amount (group_of df (customer_id t)))"

definition transform_count :: "transaction list \<Rightarrow> transaction \<Rightarrow> nat" where
  "transform_count df t = length (group_of df (customer_id t))"

definition transform_max :: "transaction list \<Rightarrow> transaction \<Rightarrow> int" where
  "transform_max df t = Max (set (map purchase_date (group_of df (customer_id t))))"

definition ns_per_day :: int where
  "ns_per_day = 86400000000000"

text \<open>\<^verbatim>\<open>(current_date - ...).dt.days\<close>: the whole days of a time difference (the floor).\<close>

definition dt_days :: "int \<Rightarrow> int" where
  "dt_days delta = delta div ns_per_day"

definition add_columns :: "int \<Rightarrow> transaction list \<Rightarrow> row list" where
  "add_columns current_date df =
     map (\<lambda>t. \<lparr>customer_id = customer_id t, product_id = product_id t, category = category t,
               amount = amount t, purchase_date = purchase_date t,
               row_total_spending = transform_sum df t,
               row_purchase_frequency = transform_count df t,
               row_average_purchase_amount = transform_sum df t / real (transform_count df t),
               row_days_since_last_purchase = dt_days (current_date - transform_max df t)\<rparr>) df"

text \<open>One cell of \<^verbatim>\<open>pivot_table(values='Purchase Amount', aggfunc='sum', fill_value=0)\<close>
  with index \<^verbatim>\<open>Customer ID\<close> and the given column key: the sum of the amounts of the
  rows with that customer and that column key, and the fill value when there is none.\<close>

definition pivot_cell ::
  "('a transaction_scheme \<Rightarrow> string) \<Rightarrow> ('a transaction_scheme) list \<Rightarrow> string \<Rightarrow> string \<Rightarrow> real" where
  "pivot_cell colkey df c k =
     (case filter (\<lambda>t. customer_id t = c \<and> colkey t = k) df of
        [] \<Rightarrow> 0
      | g \<Rightarrow> sum_list (map amount g))"

text \<open>The row of customer \<open>c\<close> in \<^verbatim>\<open>category_pivot\<close> after
  \<^verbatim>\<open>category_pivot.div(category_pivot.sum(axis=1), axis=0)\<close>: one share per category
  column, the columns being the sorted distinct categories of the whole table.\<close>

definition category_pivot :: "('a transaction_scheme) list \<Rightarrow> string \<Rightarrow> (string \<times> float) list" where
  "category_pivot df c =
     (let cats = sorted_unique (map category df);
          row_sum = sum_list (map (pivot_cell category df c) cats)
      in map (\<lambda>k. (k, pd_div (pivot_cell category df c k) row_sum)) cats)"

text \<open>One row of \<^verbatim>\<open>self.features\<close>: the index label, the four aggregated columns
  and the joined category pivot.\<close>

record feature =
  fcustomer :: string
  total_spending :: real
  purchase_frequency :: nat
  average_purchase_amount :: real
  days_since_last_purchase :: int
  category_share :: "(string \<times> float) list"

text \<open>\<^verbatim>\<open>groupby('Customer ID').agg({... : 'first'}).join(category_pivot)\<close>: for each
  customer in sorted order, the four columns of the first row of the group, and the
  customer's row of the category pivot.\<close>

definition agg_first_join :: "row list \<Rightarrow> feature list" where
  "agg_first_join rows =
     concat (map (\<lambda>c. case group_of rows c of
                         [] \<Rightarrow> []
                       | r # _ \<Rightarrow>
                           [\<lparr>fcustomer = c,
                             total_spending = row_total_spending r,
                             purchase_frequency = row_purchase_frequency r,
                             average_purchase_amount = row_average_purchase_amount r,
                             days_since_last_purchase = row_days_since_last_purchase r,
                             category_share = category_pivot rows c\<rparr>])
                 (sorted_unique (map customer_id rows)))"

text \<open>\<^verbatim>\<open>_prepare_features\<close>; \<open>current_date\<close> is the value of \<^verbatim>\<open>datetime.now()\<close>.\<close>

definition prepare_features :: "int \<Rightarrow> transaction list \<Rightarrow> feature list" where
  "prepare_features current_date df = agg_first_join (add_columns current_date df)"

subsection \<open>Thresholds\<close>

record thresholds =
  spending_high :: float
  spending_medium :: float
  frequency_high :: float
  frequency_medium :: float
  recency_threshold :: float

text \<open>\<^verbatim>\<open>Series.quantile(q)\<close> with linear interpolation between order statistics.
  pandas rejects a \<open>q\<close> outside \<open>[0, 1]\<close> and returns NaN on an empty column.\<close>

definition quantile :: "real list \<Rightarrow> real \<Rightarrow> error + float" where
  "quantile xs q =
     (if q < 0 \<or> 1 < q then Inl ValueError
      else if xs = [] then Inr None
      else let s = sort xs;
               h = real (length xs - 1) * q;
               lo = nat \<lfloor>h\<rfloor>;
               hi = min (lo + 1) (length xs - 1)
           in Inr (Some (s ! lo + (h - real lo) * (s ! hi - s ! lo))))"

text \<open>\<^verbatim>\<open>Series.mean()\<close>: NaN on an empty column.\<close>

definition mean :: "real list \<Rightarrow> float" where
  "mean xs = (if xs = [] then None else Some (sum_list xs / real (length xs)))"

text \<open>\<^verbatim>\<open>Series.std()\<close>: the sample standard deviation (divisor \<open>n - 1\<close>), NaN for
  fewer than two values.\<close>

definition std :: "real list \<Rightarrow> float" where
  "std xs =
     (if length xs < 2 then None
      else let m = sum_list xs / real (length xs)
           in Some (sqrt (sum_list (map (\<lambda>x. (x - m)\<^sup>2) xs) / real (length xs - 1))))"

text \<open>\<^verbatim>\<open>recency_mean + (recency_std * multiplier)\<close> on floats: NaN is contagious.\<close>

definition recency_of :: "float \<Rightarrow> float \<Rightarrow> real \<Rightarrow> float" where
  "recency_of recency_mean recency_std multiplier =
     (case (recency_mean, recency_std) of
        (Some m, Some s) \<Rightarrow> Some (m + s * multiplier)
      | _ \<Rightarrow> None)"

subsection \<open>The segmentation engine\<close>

text \<open>The object state of \<^verbatim>\<open>CustomerSegmentation\<close>.  The columns \<^verbatim>\<open>Cluster\<close> and
  \<^verbatim>\<open>Segment\<close> of \<^verbatim>\<open>self.features\<close> exist only after clustering, and the attribute
  \<^verbatim>\<open>_thresholds\<close> only after the first labelling.\<close>

record segmentation =
  n_clusters :: int
  high_percentile :: real
  medium_percentile :: real
  recency_std_multiplier :: real
  seg_df :: "row list"
  features :: "feature list"
  cluster_column :: "int list option"
  segment_column :: "string list option"
  thresholds_cache :: "thresholds option"

text \<open>The constructor, on the table read from the CSV file.\<close>

definition customer_segmentation ::
  "int \<Rightarrow> transaction list \<Rightarrow> int \<Rightarrow> real \<Rightarrow> real \<Rightarrow> real \<Rightarrow> segmentation" where
  "customer_segmentation current_date table k hp mp multiplier =
     \<lparr>n_clusters = k, high_percentile = hp, medium_percentile = mp,
      recency_std_multiplier = multiplier,
      seg_df = add_columns current_date table,
      features = prepare_features current_date table,
      cluster_column = None, segment_column = None, thresholds_cache = None\<rparr>"

text \<open>\<^verbatim>\<open>_calculate_thresholds\<close>.\<close>

definition calculate_thresholds :: "segmentation \<Rightarrow> error + thresholds" where
  "calculate_thresholds s =
     (let spending = map total_spending (features s);
          frequency = map (\<lambda>f. real (purchase_frequency f)) (features s);
          recency = map (\<lambda>f. real_of_int (days_since_last_purchase f)) (features s)
      in and_then (quantile spending (high_percentile s)) (\<lambda>sh.
         and_then (quantile spending (medium_percentile s)) (\<lambda>sm.
         and_then (quantile frequency (high_percentile s)) (\<lambda>fh.
         and_then (quantile frequency (medium_percentile s)) (\<lambda>fm.
         Inr \<lparr>spending_high = sh, spending_medium = sm,
              frequency_high = fh, frequency_medium = fm,
              recency_threshold =
                recency_of (mean recency) (std recency) (recency_std_multiplier s)\<rparr>)))))"

subsection \<open>Segment labels\<close>

text \<open>The decision of \<^verbatim>\<open>_label_segment\<close> (the statement under
  \<^verbatim>\<open># Determine segment\<close>), on the thresholds it has read from \<^verbatim>\<open>self._thresholds\<close>.\<close>

definition determine_segment :: "thresholds \<Rightarrow> feature \<Rightarrow> string" where
  "determine_segment th row =
     (if gt (of_int (days_since_last_purchase row)) (recency_threshold th)
        then ''Inactive Customers''
      else if gt (total_spending row) (spending_high th)
              \<and> gt (of_nat (purchase_frequency row)) (frequency_high th)
        then ''High-Value Frequent Buyers''
      else if gt (total_spending row) (spending_high th)
        then ''Big Spenders''
      else if gt (of_nat (purchase_frequency row)) (frequency_high th)
        then ''Frequent Low-Value Buyers''
      else if gt (total_spending row) (spending_medium th)
              \<and> gt (of_nat (purchase_frequency row)) (frequency_medium th)
        then ''Regular Customers''
      else ''Occasional Buyers'')"


text \<open>\<^verbatim>\<open>_label_segment\<close> as a method: the thresholds are computed at the first call and
  kept in \<^verbatim>\<open>self._thresholds\<close>.\<close>

definition label_segment :: "segmentation \<Rightarrow> feature \<Rightarrow> error + (segmentation \<times> string)" where
  "label_segment s row =
     (case thresholds_cache s of
        Some th \<Rightarrow> Inr (s, determine_segment th row)
      | None \<Rightarrow>
          (case calculate_thresholds s of
             Inl e \<Rightarrow> Inl e
           | Inr th \<Rightarrow> Inr (s\<lparr>thresholds_cache := Some th\<rparr>, determine_segment th row)))"

text \<open>\<^verbatim>\<open>self.features.apply(self._label_segment, axis=1)\<close>: the method on every row in
  turn.\<close>

fun apply_label_segment :: "segmentation \<Rightarrow> feature list \<Rightarrow> error + (segmentation \<times> string list)" where
  "apply_label_segment s [] = Inr (s, [])"
| "apply_label_segment s (r # rs) =
     (case label_segment s r of
        Inl e \<Rightarrow> Inl e
      | Inr (s1, l) \<Rightarrow>
          (case apply_label_segment s1 rs of
             Inl e \<Rightarrow> Inl e
           | Inr (s2, ls) \<Rightarrow> Inr (s2, l # ls)))"

subsection \<open>Clustering and the segmentation report\<close>

record segment_summary =
  segment_name :: string
  customer_count :: nat
  avg_spending :: float
  avg_frequency :: float
  avg_order_value :: float
  avg_days_since_purchase :: float

record results_summary =
  total_customers :: nat
  number_of_segments :: nat
  analysis_date :: int
  summary_thresholds :: thresholds

record segmentation_results =
  summary :: results_summary
  segments :: "segment_summary list"

text \<open>\<^verbatim>\<open>self.features[self.features['Segment'] == segment]\<close>: the rows of the feature
  table whose \<^verbatim>\<open>Segment\<close> entry is the given label.\<close>

definition segment_data :: "feature list \<Rightarrow> string list \<Rightarrow> string \<Rightarrow> feature list" where
  "segment_data fs segs segment = map fst (filter (\<lambda>(f, l). l = segment) (zip fs segs))"

text \<open>The body of \<^verbatim>\<open>get_segmentation_results\<close> once the \<^verbatim>\<open>Segment\<close> column exists;
  \<open>clock\<close> is the value of \<^verbatim>\<open>datetime.now()\<close> stored as the analysis date.\<close>

definition segmentation_report :: "int \<Rightarrow> segmentation \<Rightarrow> error + segmentation_results" where
  "segmentation_report clock s =
     and_then (calculate_thresholds s) (\<lambda>th.
       case segment_column s of
         None \<Rightarrow> Inl KeyError
       | Some segs \<Rightarrow>
           (let segments_summary =
                  map (\<lambda>segment.
                         let d = segment_data (features s) segs segment
                         in \<lparr>segment_name = segment,
                             customer_count = length d,
                             avg_spending = mean (map total_spending d),
                             avg_frequency = mean (map (\<lambda>f. real (purchase_frequency f)) d),
                             avg_order_value = mean (map average_purchase_amount d),
                             avg_days_since_purchase =
                               mean (map (\<lambda>f. real_of_int (days_since_last_purchase f)) d)\<rparr>)
                      (unique segs)
            in Inr \<lparr>summary = \<lparr>total_customers = length (features s),
                                 number_of_segments = length segments_summary,
                                 analysis_date = clock,
                                 summary_thresholds = th\<rparr>,
                     segments = segments_summary\<rparr>))"

text \<open>\<^verbatim>\<open>perform_clustering\<close>.  The parameter \<open>fit_predict\<close> stands for scikit-learn:
  \<^verbatim>\<open>StandardScaler.fit_transform\<close> on the current feature table followed by
  \<^verbatim>\<open>KMeans(n_clusters, random_state=42).fit_predict\<close>; it may raise.  Assigning its
  result as the column \<^verbatim>\<open>Cluster\<close> needs one entry per row.  The method ends with
  \<^verbatim>\<open>return self.get_segmentation_results()\<close>, which then finds the \<^verbatim>\<open>Segment\<close>
  column in place.\<close>

definition perform_clustering ::
  "(segmentation \<Rightarrow> error + int list) \<Rightarrow> int \<Rightarrow> segmentation
     \<Rightarrow> error + (segmentation \<times> segmentation_results)" where
  "perform_clustering fit_predict clock s =
     and_then (fit_predict s) (\<lambda>cl.
       if length cl \<noteq> length (features s) then Inl ValueError
       else
         and_then (apply_label_segment (s\<lparr>cluster_column := Some cl\<rparr>) (features s)) (\<lambda>(s1, labels).
           let s2 = s1\<lparr>segment_column := Some labels\<rparr>
           in and_then (segmentation_report clock s2) (\<lambda>r. Inr (s2, r))))"


record customer_segment =
  cs_customer_id :: string
  cs_segment :: string
  cs_total_spending :: real
  cs_purchase_frequency :: int
  cs_average_order_value :: real
  cs_days_since_last_purchase :: int
  cs_thresholds :: thresholds

text \<open>\<^verbatim>\<open>get_customer_segment\<close>: \<open>None\<close> is Python's \<^verbatim>\<open>None\<close>, returned for a customer
  that is not in the index of the feature table.\<close>

definition get_customer_segment ::
  "(segmentation \<Rightarrow> error + int list) \<Rightarrow> int \<Rightarrow> segmentation \<Rightarrow> string
     \<Rightarrow> error + (segmentation \<times> customer_segment option)" where
  "get_customer_segment fit_predict clock s cid =
     (if cid \<notin> set (map fcustomer (features s)) then Inr (s, None)
      else
        and_then (case segment_column s of
                    None \<Rightarrow> and_then (perform_clustering fit_predict clock s) (\<lambda>(s1, dropped). Inr s1)
                  | Some segs \<Rightarrow> Inr s) (\<lambda>s1.
          case segment_column s1 of
            None \<Rightarrow> Inl KeyError
          | Some segs \<Rightarrow>
              (case filter (\<lambda>(f, l). fcustomer f = cid) (zip (features s1) segs) of
                 [] \<Rightarrow> Inl KeyError
               | (f, l) # rest \<Rightarrow>
                   and_then (calculate_thresholds s1) (\<lambda>th.
                     Inr (s1, Some \<lparr>cs_customer_id = cid,
                                    cs_segment = l,
                                    cs_total_spending = total_spending f,
                                    cs_purchase_frequency = int (purchase_frequency f),
                                    cs_average_order_value = average_purchase_amount f,
                                    cs_days_since_last_purchase = days_since_last_purchase f,
                                    cs_thresholds = th\<rparr>)))))"

subsection \<open>Matrices and labelled tables\<close>

text \<open>A NumPy array of two dimensions, and a DataFrame of floats read by labels.\<close>

record matrix =
  nrows :: nat
  ncols :: nat
  entry :: "nat \<Rightarrow> nat \<Rightarrow> real"

record frame =
  index :: "string list"
  columns :: "string list"
  cell :: "string \<Rightarrow> string \<Rightarrow> real"

fun index_of :: "'a list \<Rightarrow> 'a \<Rightarrow> nat" where
  "index_of [] x = 0"
| "index_of (y # ys) x = (if x = y then 0 else Suc (index_of ys x))"

text \<open>\<^verbatim>\<open>frame.values\<close>.\<close>

definition frame_values :: "frame \<Rightarrow> matrix" where
  "frame_values fr =
     \<lparr>nrows = length (index fr), ncols = length (columns fr),
      entry = (\<lambda>i j. cell fr (index fr ! i) (columns fr ! j))\<rparr>"

text \<open>\<^verbatim>\<open>pd.DataFrame(array, index=..., columns=...)\<close>: the shape must fit the labels.\<close>

definition data_frame :: "matrix \<Rightarrow> string list \<Rightarrow> string list \<Rightarrow> error + frame" where
  "data_frame m idx cols =
     (if nrows m \<noteq> length idx \<or> ncols m \<noteq> length cols then Inl ValueError
      else Inr \<lparr>index = idx, columns = cols,
                cell = (\<lambda>c p. entry m (index_of idx c) (index_of cols p))\<rparr>)"

text \<open>\<^verbatim>\<open>np.mean(matrix, axis=1)\<close>: one mean per row, over all columns.  The
  division is by the number of columns; the purchase matrix, the only argument, has a
  column whenever it has a row (lemma \<open>purchase_matrix_has_columns\<close>).\<close>

definition row_means :: "matrix \<Rightarrow> real list" where
  "row_means m =
     map (\<lambda>i. sum_list (map (entry m i) [0..<ncols m]) / real (ncols m)) [0..<nrows m]"

text \<open>\<^verbatim>\<open>matrix - user_means.reshape(-1, 1)\<close>, one mean per row of the matrix.\<close>

definition subtract_column :: "matrix \<Rightarrow> real list \<Rightarrow> matrix" where
  "subtract_column m v =
     \<lparr>nrows = nrows m, ncols = ncols m, entry = (\<lambda>i j. entry m i j - v ! i)\<rparr>"

text \<open>\<^verbatim>\<open>predicted_norm + user_means.reshape(-1, 1)\<close> under NumPy's broadcasting: the
  numbers of rows must agree unless one of them is 1.\<close>

definition add_column :: "matrix \<Rightarrow> real list \<Rightarrow> error + matrix" where
  "add_column m v =
     (if nrows m = length v \<or> nrows m = 1 \<or> length v = 1
      then Inr \<lparr>nrows = (if nrows m = 1 then length v else nrows m),
                ncols = ncols m,
                entry = (\<lambda>i j. entry m (if nrows m = 1 then 0 else i) j
                                + v ! (if length v = 1 then 0 else i))\<rparr>
      else Inl ValueError)"

text \<open>\<^verbatim>\<open>np.diag(sigma)\<close> and \<^verbatim>\<open>np.dot\<close> on two-dimensional arrays.\<close>

definition diag :: "real list \<Rightarrow> matrix" where
  "diag sigma =
     \<lparr>nrows = length sigma, ncols = length sigma,
      entry = (\<lambda>i j. if i = j then sigma ! i else 0)\<rparr>"

definition dot :: "matrix \<Rightarrow> matrix \<Rightarrow> error + matrix" where
  "dot a b =
     (if ncols a \<noteq> nrows b then Inl ValueError
      else Inr \<lparr>nrows = nrows a, ncols = ncols b,
                entry = (\<lambda>i j. sum_list (map (\<lambda>k. entry a i k * entry b k j) [0..<ncols a]))\<rparr>)"

subsection \<open>The recommendation engine\<close>

record engine =
  eng_df :: "transaction list"
  n_factors :: int
  purchase_matrix :: frame
  predictions_df :: frame

text \<open>The customer by product \<^verbatim>\<open>pivot_table\<close> of summed amounts, fill value 0.\<close>

definition build_purchase_matrix :: "transaction list \<Rightarrow> frame" where
  "build_purchase_matrix df =
     \<lparr>index = sorted_unique (map customer_id df),
      columns = sorted_unique (map product_id df),
      cell = pivot_cell product_id df\<rparr>"

text \<open>\<^verbatim>\<open>_load_and_process_data\<close>, on the table read from the CSV file.  The parameter
  \<open>svds\<close> stands for \<^verbatim>\<open>scipy.sparse.linalg.svds\<close>: given the centred matrix and the
  number of factors it returns \<open>(U, sigma, Vt)\<close> or raises.\<close>

definition load_and_process_data ::
  "(matrix \<Rightarrow> int \<Rightarrow> error + (matrix \<times> real list \<times> matrix)) \<Rightarrow> transaction list \<Rightarrow> int
     \<Rightarrow> error + engine" where
  "load_and_process_data svds df n =
     (let pm = build_purchase_matrix df;
          m = frame_values pm;
          user_means = row_means m;
          matrix_norm = subtract_column m user_means
      in and_then (svds matrix_norm n) (\<lambda>(U, sigma, Vt).
         and_then (dot U (diag sigma)) (\<lambda>us.
         and_then (dot us Vt) (\<lambda>predicted_norm.
         and_then (add_column predicted_norm user_means) (\<lambda>predicted_ratings.
         and_then (data_frame predicted_ratings (index pm) (columns pm)) (\<lambda>preds.
         Inr \<lparr>eng_df = df, n_factors = n, purchase_matrix = pm, predictions_df = preds\<rparr>))))))"

record recommendation =
  rec_product_id :: string
  rec_category :: string
  predicted_rating :: real

record recommendations_result =
  res_error :: "string option"
  recommendations :: "recommendation list"
  res_customer_id :: string

text \<open>\<^verbatim>\<open>user_purchases[user_purchases == 0].index\<close>: the product columns whose cell in
  the customer's row is 0, in column order.\<close>

definition not_purchased :: "engine \<Rightarrow> string \<Rightarrow> string list" where
  "not_purchased eng c =
     filter (\<lambda>p. cell (purchase_matrix eng) c p = 0) (columns (purchase_matrix eng))"

text \<open>\<^verbatim>\<open>self.predictions_df.loc[customer_id, not_purchased]\<close>: the series of predicted
  ratings of those products, as (label, value) pairs.\<close>

definition predicted_ratings_of :: "engine \<Rightarrow> string \<Rightarrow> (string \<times> real) list" where
  "predicted_ratings_of eng c =
     map (\<lambda>p. (p, cell (predictions_df eng) c p)) (not_purchased eng c)"

text \<open>What \<^verbatim>\<open>sort_values(ascending=False)\<close> promises of its result \<open>ys\<close> on the series
  \<open>xs\<close>: the same entries, by value from high to low.  pandas sorts with its default
  algorithm, which fixes no order among entries of equal value.\<close>

definition sorted_descending :: "(string \<times> real) list \<Rightarrow> (string \<times> real) list \<Rightarrow> bool" where
  "sorted_descending xs ys = (mset ys = mset xs \<and> sorted_wrt (\<lambda>a b. snd b \<le> snd a) ys)"

text \<open>The Python slice \<^verbatim>\<open>xs[:n]\<close>; a negative \<open>n\<close> counts from the end.\<close>

definition slice_to :: "int \<Rightarrow> 'a list \<Rightarrow> 'a list" where
  "slice_to n xs = (if 0 \<le> n then take (nat n) xs else take (length xs - nat (- n)) xs)"

text \<open>\<^verbatim>\<open>self.df[self.df['Product ID'] == prod_id]['Product Category'].iloc[0]\<close>.\<close>

definition first_category :: "transaction list \<Rightarrow> string \<Rightarrow> error + string" where
  "first_category df prod_id =
     (case filter (\<lambda>t. product_id t = prod_id) df of
        [] \<Rightarrow> Inl IndexError
      | t # rest \<Rightarrow> Inr (category t))"

text \<open>The loop over \<^verbatim>\<open>top_recommendations.items()\<close>.\<close>

fun build_recommendations :: "transaction list \<Rightarrow> (string \<times> real) list \<Rightarrow> error + recommendation list" where
  "build_recommendations df [] = Inr []"
| "build_recommendations df ((prod_id, pred_rating) # rest) =
     and_then (first_category df prod_id) (\<lambda>cat.
       and_then (build_recommendations df rest) (\<lambda>recs.
         Inr (\<lparr>rec_product_id = prod_id, rec_category = cat, predicted_rating = pred_rating\<rparr> # recs)))"

text \<open>\<^verbatim>\<open>get_recommendations\<close>.  The parameter \<open>sort_values\<close> stands for pandas'
  \<^verbatim>\<open>Series.sort_values(ascending=False)\<close>.  Reading a label that a table does not
  have with \<^verbatim>\<open>.loc\<close> raises \<^verbatim>\<open>KeyError\<close>.\<close>

definition get_recommendations ::
  "((string \<times> real) list \<Rightarrow> (string \<times> real) list) \<Rightarrow> engine \<Rightarrow> string \<Rightarrow> int
     \<Rightarrow> error + recommendations_result" where
  "get_recommendations sort_values eng cid n_recommendations =
     (if cid \<notin> set (index (predictions_df eng))
      then Inr \<lparr>res_error = Some (''Customer '' @ cid @ '' not found in database''),
                recommendations = [],
                res_customer_id = cid\<rparr>
      else if cid \<notin> set (index (purchase_matrix eng)) then Inl KeyError
      else if \<not> set (not_purchased eng cid) \<subseteq> set (columns (predictions_df eng)) then Inl KeyError
      else
        (let top_recommendations =
               slice_to n_recommendations (sort_values (predicted_ratings_of eng cid))
         in and_then (build_recommendations (eng_df eng) top_recommendations) (\<lambda>recs.
              Inr \<lparr>res_error = None, recommendations = recs, res_customer_id = cid\<rparr>)))"

subsection \<open>Example inputs\<close>

text \<open>The purchase table of the end-to-end example of the specification: three customers
  and two products, with categories and purchase dates (day 0, 1, 3 and 2) added.  The
  clock reads a little more than ten days.\<close>

definition example_table :: "transaction list" where
  "example_table =
     [\<lparr>customer_id = ''C1'', product_id = ''P1'', category = ''Books'',
       amount = 100, purchase_date = 0\<rparr>,
      \<lparr>customer_id = ''C2'', product_id = ''P1'', category = ''Books'',
       amount = 50, purchase_date = 86400000000000\<rparr>,
      \<lparr>customer_id = ''C2'', product_id = ''P2'', category = ''Grocery'',
       amount = 50, purchase_date = 259200000000000\<rparr>,
      \<lparr>customer_id = ''C3'', product_id = ''P2'', category = ''Grocery'',
       amount = 200, purchase_date = 172800000000000\<rparr>]"

definition example_now :: int where
  "example_now = 864000000000005"



text \<open>Two customers, the first of whom only ever paid nothing.\<close>

definition zero_amount_table :: "transaction list" where
  "zero_amount_table =
     [\<lparr>customer_id = ''C1'', product_id = ''P1'', category = ''Books'',
       amount = 0, purchase_date = 0\<rparr>,
      \<lparr>customer_id = ''C2'', product_id = ''P2'', category = ''Grocery'',
       amount = 10, purchase_date = 0\<rparr>]"

text \<open>A segmentation engine over a table with a single customer, with the default
  percentiles and multiplier.\<close>

definition single_customer_engine :: segmentation where
  "single_customer_engine =
     customer_segmentation example_now
       [\<lparr>customer_id = ''C1'', product_id = ''P1'', category = ''Books'',
         amount = 100, purchase_date = 0\<rparr>] 5 (3 / 4) (1 / 2) 1"

text \<open>The segmentation engine of the example table, with a stand-in for scikit-learn that
  puts the three customers into clusters 0, 1 and 0.\<close>

definition example_segmentation :: segmentation where
  "example_segmentation = customer_segmentation example_now example_table 2 (3 / 4) (1 / 2) 1"

definition example_fit_predict :: "segmentation \<Rightarrow> error + int list" where
  "example_fit_predict s = Inr [0, 1, 0]"

text \<open>The recommendation engine of the example table.  The centred purchase matrix of the
  example has rank 1, so its reconstruction from one factor, with the row means added
  back, is the purchase matrix itself.\<close>

definition example_engine :: engine where
  "example_engine =
     \<lparr>eng_df = example_table, n_factors = 1,
      purchase_matrix = build_purchase_matrix example_table,
      predictions_df = build_purchase_matrix example_table\<rparr>"

text \<open>A sorter that meets the promise of \<^verbatim>\<open>sort_values(ascending=False)\<close> and keeps
  entries of equal value in their given order.\<close>

definition sort_values_stable :: "(string \<times> real) list \<Rightarrow> (string \<times> real) list" where
  "sort_values_stable xs = sort_key (\<lambda>x. - snd x) xs"

subsection \<open>Example inputs with equal predicted ratings\<close>




subsection \<open>A factorisation for the example\<close>


subsection \<open>Auxiliary notions\<close>



text \<open>What the constructor of the recommendation engine establishes: the purchase matrix
  is the pivot of the engine's table, and the predictions table has its labels.\<close>

definition engine_ok :: "engine \<Rightarrow> bool" where
  "engine_ok eng \<longleftrightarrow>
     purchase_matrix eng = build_purchase_matrix (eng_df eng)
     \<and> index (predictions_df eng) = index (purchase_matrix eng)
     \<and> columns (predictions_df eng) = columns (purchase_matrix eng)"

section \<open>Properties\<close>

subsection \<open>Keys, groups and sums\<close>

lemma set_sorted_unique: "set (sorted_unique ks) = set ks"
  by (simp add: sorted_unique_def)

lemma distinct_sorted_unique: "distinct (sorted_unique ks)"
  by (simp add: sorted_unique_def)

lemma sum_list_indicator:
  "distinct ks \<Longrightarrow>
     sum_list (map (\<lambda>k. if a = k then v else 0) ks)
       = (if a \<in> set ks then v else (0::'b::comm_monoid_add))"
  by (induction ks) auto

text \<open>Summing group by group, over distinct keys that cover the table, is summing the
  table.\<close>

lemma sum_by_key:
  fixes f :: "'a \<Rightarrow> 'b::comm_monoid_add"
  assumes "distinct ks" and "g ` set xs \<subseteq> set ks"
  shows "sum_list (map (\<lambda>k. sum_list (map f (filter (\<lambda>t. g t = k) xs))) ks) = sum_list (map f xs)"
  using assms(2)
proof (induction xs)
  case Nil
  then show ?case by simp
next
  case (Cons x xs)
  have "sum_list (map (\<lambda>k. sum_list (map f (filter (\<lambda>t. g t = k) (x # xs)))) ks)
      = sum_list (map (\<lambda>k. (if g x = k then f x else 0)
                               + sum_list (map f (filter (\<lambda>t. g t = k) xs))) ks)"
    by (rule arg_cong[where f=sum_list], rule map_cong) auto
  also have "\<dots> = sum_list (map (\<lambda>k. if g x = k then f x else 0) ks)
                 + sum_list (map (\<lambda>k. sum_list (map f (filter (\<lambda>t. g t = k) xs))) ks)"
    by (simp add: sum_list_addf)
  also have "\<dots> = f x + sum_list (map f xs)"
    using Cons assms(1) by (simp add: sum_list_indicator)
  finally show ?case by simp
qed

lemma concat_map_single:
  "(\<And>c. c \<in> set ks \<Longrightarrow> f c = [g c]) \<Longrightarrow> concat (map f ks) = map g ks"
  by (induction ks) auto

lemma group_of_nonempty: "c \<in> set (map customer_id df) \<Longrightarrow> group_of df c \<noteq> []"
  by (auto simp: group_of_def filter_empty_conv)

lemma group_of_customer: "t \<in> set (group_of df c) \<Longrightarrow> customer_id t = c"
  by (simp add: group_of_def)

lemma transform_count_pos: "t \<in> set df \<Longrightarrow> 0 < transform_count df t"
  by (auto simp: transform_count_def group_of_def filter_empty_conv)

lemma purchase_matrix_has_columns:
  "index (build_purchase_matrix df) \<noteq> [] \<Longrightarrow> columns (build_purchase_matrix df) \<noteq> []"
proof -
  assume "index (build_purchase_matrix df) \<noteq> []"
  then have "set (sorted_unique (map customer_id df)) \<noteq> {}"
    by (simp add: build_purchase_matrix_def)
  then have "df \<noteq> []" by (simp add: set_sorted_unique)
  then have "set (sorted_unique (map product_id df)) \<noteq> {}"
    by (simp add: set_sorted_unique)
  then show ?thesis by (auto simp: build_purchase_matrix_def)
qed

subsection \<open>The feature table, customer by customer\<close>

lemma group_of_add_columns:
  "group_of (add_columns now df) c =
     map (\<lambda>t. \<lparr>customer_id = customer_id t, product_id = product_id t, category = category t,
               amount = amount t, purchase_date = purchase_date t,
               row_total_spending = transform_sum df t,
               row_purchase_frequency = transform_count df t,
               row_average_purchase_amount = transform_sum df t / real (transform_count df t),
               row_days_since_last_purchase = dt_days (now - transform_max df t)\<rparr>)
         (group_of df c)"
  by (simp add: group_of_def add_columns_def filter_map comp_def)

lemma customer_id_add_columns: "map customer_id (add_columns now df) = map customer_id df"
  by (simp add: add_columns_def comp_def)

lemma category_add_columns: "map category (add_columns now df) = map category df"
  by (simp add: add_columns_def comp_def)

lemma pivot_cell_add_columns:
  "pivot_cell category (add_columns now df) c k = pivot_cell category df c k"
  by (simp add: pivot_cell_def add_columns_def filter_map comp_def split: list.splits)

lemma category_pivot_add_columns:
  "category_pivot (add_columns now df) c = category_pivot df c"
proof -
  have "pivot_cell category (add_columns now df) c = pivot_cell category df c"
    by (rule ext) (rule pivot_cell_add_columns)
  then show ?thesis by (simp add: category_pivot_def category_add_columns)
qed

text \<open>Every customer of the table has a first row, so the feature table has one row per
  customer, holding the aggregates of the customer's group.\<close>

lemma prepare_features_eq:
  "prepare_features now df =
     map (\<lambda>c. \<lparr>fcustomer = c,
               total_spending = sum_list (map amount (group_of df c)),
               purchase_frequency = length (group_of df c),
               average_purchase_amount =
                 sum_list (map amount (group_of df c)) / real (length (group_of df c)),
               days_since_last_purchase =
                 dt_days (now - Max (set (map purchase_date (group_of df c)))),
               category_share = category_pivot df c\<rparr>)
         (sorted_unique (map customer_id df))"
  unfolding prepare_features_def agg_first_join_def customer_id_add_columns
proof (rule concat_map_single)
  fix c assume "c \<in> set (sorted_unique (map customer_id df))"
  then have "c \<in> set (map customer_id df)" by (simp only: set_sorted_unique)
  then obtain t ts where g: "group_of df c = t # ts"
    using group_of_nonempty[of c df] by (cases "group_of df c") auto
  then have "t \<in> set (group_of df c)" by simp
  then have ct: "customer_id t = c" by (rule group_of_customer)
  show "(case group_of (add_columns now df) c of [] \<Rightarrow> []
         | r # x \<Rightarrow> [\<lparr>fcustomer = c, total_spending = row_total_spending r,
               purchase_frequency = row_purchase_frequency r,
               average_purchase_amount = row_average_purchase_amount r,
               days_since_last_purchase = row_days_since_last_purchase r,
               category_share = category_pivot (add_columns now df) c\<rparr>]) =
        [\<lparr>fcustomer = c,
             total_spending = sum_list (map amount (group_of df c)),
             purchase_frequency = length (group_of df c),
             average_purchase_amount =
               sum_list (map amount (group_of df c)) / real (length (group_of df c)),
             days_since_last_purchase =
               dt_days (now - Max (set (map purchase_date (group_of df c)))),
             category_share = category_pivot df c\<rparr>]"
    by (simp add: group_of_add_columns g category_pivot_add_columns
          transform_sum_def transform_count_def transform_max_def ct)
qed

subsection \<open>Segment labels\<close>




subsection \<open>Conservation of spending\<close>


subsection \<open>Customers with a single transaction\<close>

lemma filter_eq_key: "distinct ks \<Longrightarrow> c \<in> set ks \<Longrightarrow> filter (\<lambda>k. k = c) ks = [c]"
  by (induction ks) (auto simp: filter_empty_conv)

text \<open>
  Claim C7, as the code has it.  A customer with exactly one transaction has exactly one
  row in the feature table; its total spending is the amount of that transaction, its
  purchase frequency is 1, its average purchase amount equals its total spending, and
  its days since last purchase are the whole days from the purchase date of that
  transaction to the clock reading of the run.
\<close>

theorem single_transaction_features:
  assumes "group_of df c = [t]"
  shows "\<exists>f. filter (\<lambda>f. fcustomer f = c) (prepare_features now df) = [f]
             \<and> total_spending f = amount t
             \<and> purchase_frequency f = 1
             \<and> average_purchase_amount f = total_spending f
             \<and> days_since_last_purchase f = dt_days (now - purchase_date t)"
proof -
  have "t \<in> set (group_of df c)" using assms by simp
  then have "t \<in> set df" "customer_id t = c" by (simp_all add: group_of_def)
  then have c: "c \<in> set (sorted_unique (map customer_id df))"
    by (auto simp: set_sorted_unique)
  have "filter (\<lambda>f. fcustomer f = c) (prepare_features now df)
        = map (\<lambda>c. \<lparr>fcustomer = c,
               total_spending = sum_list (map amount (group_of df c)),
               purchase_frequency = length (group_of df c),
               average_purchase_amount =
                 sum_list (map amount (group_of df c)) / real (length (group_of df c)),
               days_since_last_purchase =
                 dt_days (now - Max (set (map purchase_date (group_of df c)))),
               category_share = category_pivot df c\<rparr>)
            (filter (\<lambda>k. k = c) (sorted_unique (map customer_id df)))"
    by (simp add: prepare_features_eq filter_map comp_def)
  also have "filter (\<lambda>k. k = c) (sorted_unique (map customer_id df)) = [c]"
    using c by (rule filter_eq_key[OF distinct_sorted_unique])
  finally show ?thesis by (simp add: assms)
qed

text \<open>The theorem at customer C1 of the example, whose one purchase is ten days old.\<close>

theorem single_transaction_features_witness:
  "group_of example_table ''C1'' = [example_table ! 0]
   \<and> (\<exists>f. filter (\<lambda>f. fcustomer f = ''C1'') (prepare_features example_now example_table) = [f]
             \<and> total_spending f = 100
             \<and> purchase_frequency f = 1
             \<and> average_purchase_amount f = total_spending f
             \<and> days_since_last_purchase f = 10)"
proof -
  have g: "group_of example_table ''C1'' = [example_table ! 0]"
    by (simp add: group_of_def example_table_def)
  have d: "dt_days (example_now - purchase_date (example_table ! 0)) = 10"
    by (simp add: dt_days_def example_now_def example_table_def ns_per_day_def)
  have a: "amount (example_table ! 0) = 100" by (simp add: example_table_def)
  show ?thesis
    using single_transaction_features [OF g, of example_now] g by (simp add: d a)
qed

text \<open>Claim C7 as stated fails: in the example, customers C1 and C3 have exactly one
  transaction each, and their days since last purchase are 10 and 8, not 0.\<close>

theorem single_transaction_days_not_zero:
  "group_of example_table ''C1'' = [example_table ! 0]
   \<and> map (\<lambda>f. (fcustomer f, purchase_frequency f, days_since_last_purchase f))
         (prepare_features example_now example_table)
      = [(''C1'', 1, 10), (''C2'', 2, 7), (''C3'', 1, 8)]"
  by code_simp

subsection \<open>Category shares\<close>

lemma pivot_cell_sum:
  "pivot_cell colkey df c k
     = sum_list (map amount (filter (\<lambda>t. colkey t = k) (group_of df c)))"
proof -
  have "filter (\<lambda>t. customer_id t = c \<and> colkey t = k) df
          = filter (\<lambda>t. colkey t = k) (group_of df c)"
    by (simp add: group_of_def conj_commute)
  then show ?thesis by (simp add: pivot_cell_def split: list.splits)
qed

text \<open>A row of a pivot table sums to the customer's spending.\<close>

lemma pivot_row_sum:
  assumes "distinct ks" and "colkey ` set df \<subseteq> set ks"
  shows "sum_list (map (pivot_cell colkey df c) ks) = sum_list (map amount (group_of df c))"
proof -
  have "colkey ` set (group_of df c) \<subseteq> set ks"
    using assms(2) by (auto simp: group_of_def)
  from sum_by_key[OF assms(1) this, of amount] show ?thesis
    by (simp add: pivot_cell_sum[abs_def])
qed

lemma category_row_sum:
  "sum_list (map (pivot_cell category df c) (sorted_unique (map category df)))
     = sum_list (map amount (group_of df c))"
  by (rule pivot_row_sum) (simp_all add: distinct_sorted_unique set_sorted_unique)

lemma sum_list_divide:
  fixes s :: real
  shows "sum_list (map (\<lambda>k. a k / s) ks) = sum_list (map a ks) / s"
  by (induction ks) (simp_all add: add_divide_distrib)

text \<open>
  Claim C8, as the code has it.  In every row of the feature table the category share
  keys are the sorted distinct categories of the whole table, so their set is the set of
  all categories observed.  A category the customer never bought has share 0 when the
  customer's total spending is not zero, and NaN when it is zero (the filled 0 divided
  by a zero row sum).  For a customer with positive total spending every share is a
  number and the shares sum to 1.
\<close>

theorem category_share_keys:
  assumes "f \<in> set (prepare_features now df)"
  shows "map fst (category_share f) = sorted_unique (map category df)
         \<and> set (map fst (category_share f)) = set (map category df)
         \<and> (\<forall>k \<in> set (map category df).
               filter (\<lambda>t. customer_id t = fcustomer f \<and> category t = k) df = []
               \<longrightarrow> (k, if total_spending f = 0 then None else Some 0) \<in> set (category_share f))
         \<and> (0 < total_spending f
               \<longrightarrow> (\<exists>shares. map snd (category_share f) = map Some shares
                             \<and> sum_list shares = 1))"
proof -
  from assms obtain c where c: "c \<in> set (sorted_unique (map customer_id df))"
    and f: "f = \<lparr>fcustomer = c,
               total_spending = sum_list (map amount (group_of df c)),
               purchase_frequency = length (group_of df c),
               average_purchase_amount =
                 sum_list (map amount (group_of df c)) / real (length (group_of df c)),
               days_since_last_purchase =
                 dt_days (now - Max (set (map purchase_date (group_of df c)))),
               category_share = category_pivot df c\<rparr>"
    unfolding prepare_features_eq by auto
  let ?cats = "sorted_unique (map category df)"
  let ?s = "sum_list (map amount (group_of df c))"
  have share: "category_share f = map (\<lambda>k. (k, pd_div (pivot_cell category df c k) ?s)) ?cats"
    by (simp add: f category_pivot_def category_row_sum)
  have keys: "map fst (category_share f) = ?cats"
    by (simp add: share comp_def)
  have ts: "total_spending f = ?s" and fc: "fcustomer f = c" by (simp_all add: f)
  have fill: "(k, if total_spending f = 0 then None else Some 0) \<in> set (category_share f)"
    if "k \<in> set (map category df)"
      and "filter (\<lambda>t. customer_id t = fcustomer f \<and> category t = k) df = []" for k
  proof -
    have z: "pivot_cell category df c k = 0" using that(2) by (simp add: pivot_cell_def fc)
    have "k \<in> set ?cats" using that(1) by (simp only: set_sorted_unique)
    then have "(k, pd_div (pivot_cell category df c k) ?s) \<in> set (category_share f)"
      unfolding share by (simp add: image_iff)
    then show ?thesis by (cases "?s = 0") (simp_all add: z ts pd_div_def)
  qed
  have sum1: "\<exists>shares. map snd (category_share f) = map Some shares \<and> sum_list shares = 1"
    if "0 < total_spending f"
  proof -
    have s: "?s \<noteq> 0" using that by (simp add: ts)
    have "map snd (category_share f)
            = map Some (map (\<lambda>k. pivot_cell category df c k / ?s) ?cats)"
      using s by (simp add: share pd_div_def comp_def)
    moreover have "sum_list (map (\<lambda>k. pivot_cell category df c k / ?s) ?cats) = 1"
      using s by (simp add: sum_list_divide category_row_sum)
    ultimately show ?thesis by blast
  qed
  have keyset: "set (map fst (category_share f)) = set (map category df)"
    unfolding keys by (rule set_sorted_unique)
  show ?thesis using keys keyset fill sum1 by blast
qed

text \<open>The theorem at the row of customer C1 of the example, who never bought Grocery.\<close>

theorem category_share_keys_witness:
  "prepare_features example_now example_table ! 0 \<in> set (prepare_features example_now example_table)
   \<and> fcustomer (prepare_features example_now example_table ! 0) = ''C1''
   \<and> map fst (category_share (prepare_features example_now example_table ! 0))
       = [''Books'', ''Grocery'']
   \<and> ''Grocery'' \<in> set (map category example_table)
   \<and> filter (\<lambda>t. customer_id t = ''C1'' \<and> category t = ''Grocery'') example_table = []
   \<and> (''Grocery'', Some 0) \<in> set (category_share (prepare_features example_now example_table ! 0))
   \<and> 0 < total_spending (prepare_features example_now example_table ! 0)
   \<and> (\<exists>shares. map snd (category_share (prepare_features example_now example_table ! 0))
                   = map Some shares
                 \<and> sum_list shares = 1)"
proof -
  let ?f = "prepare_features example_now example_table ! 0"
  have len: "length (prepare_features example_now example_table) = 3" by code_simp
  have m: "?f \<in> set (prepare_features example_now example_table)"
    by (rule nth_mem) (simp add: len)
  have c: "fcustomer ?f = ''C1''" and t: "total_spending ?f = 100" by code_simp+
  have g: "''Grocery'' \<in> set (map category example_table)" by (simp add: example_table_def)
  have e: "filter (\<lambda>t. customer_id t = ''C1'' \<and> category t = ''Grocery'') example_table = []"
    by (simp add: example_table_def)
  have su: "sorted_unique (map category example_table) = [''Books'', ''Grocery'']" by code_simp
  from category_share_keys [OF m] show ?thesis
    using m c t g e su by auto
qed

text \<open>Claim C8 as stated fails: customer C1 of \<open>zero_amount_table\<close> never bought Grocery, and
  the Grocery share of C1 is NaN, not 0, because the total spending of C1 is zero.\<close>

theorem zero_spending_share_is_nan:
  "map (\<lambda>f. (fcustomer f, total_spending f, category_share f))
       (prepare_features 0 zero_amount_table)
     = [(''C1'', 0, [(''Books'', None), (''Grocery'', None)]),
        (''C2'', 10, [(''Books'', Some 0), (''Grocery'', Some 1)])]"
  by code_simp

subsection \<open>Thresholds of fewer than two customers\<close>

lemma quantile_empty: "0 \<le> q \<Longrightarrow> q \<le> 1 \<Longrightarrow> quantile [] q = Inr None"
  by (simp add: quantile_def)

lemma quantile_single: "0 \<le> q \<Longrightarrow> q \<le> 1 \<Longrightarrow> quantile [x] q = Inr (Some x)"
  by (simp add: quantile_def)

lemma std_few: "length xs < 2 \<Longrightarrow> std xs = None"
  by (simp add: std_def)

lemma calculate_thresholds_empty:
  assumes "0 \<le> high_percentile s" and "high_percentile s \<le> 1"
    and "0 \<le> medium_percentile s" and "medium_percentile s \<le> 1"
    and "features s = []"
  shows "calculate_thresholds s
                = Inr \<lparr>spending_high = None, spending_medium = None,
                       frequency_high = None, frequency_medium = None,
                       recency_threshold = None\<rparr>"
  using assms
  by (simp add: calculate_thresholds_def quantile_empty and_then_def std_few recency_of_def mean_def)

lemma calculate_thresholds_single:
  assumes "0 \<le> high_percentile s" and "high_percentile s \<le> 1"
    and "0 \<le> medium_percentile s" and "medium_percentile s \<le> 1"
    and "features s = [f]"
  shows "calculate_thresholds s
                = Inr \<lparr>spending_high = Some (total_spending f),
                       spending_medium = Some (total_spending f),
                       frequency_high = Some (real (purchase_frequency f)),
                       frequency_medium = Some (real (purchase_frequency f)),
                       recency_threshold = None\<rparr>"
  using assms
  by (simp add: calculate_thresholds_def quantile_single and_then_def std_few recency_of_def mean_def)

text \<open>
  Claim C6, as the code has it.  With percentiles inside \<open>[0, 1]\<close>, computing the
  thresholds of a feature table of fewer than two customers raises nothing: it returns
  thresholds whose recency threshold is NaN.  With no customer all five thresholds are
  NaN; with one customer the spending and frequency thresholds are that customer's total
  spending and purchase frequency.
\<close>

theorem thresholds_of_few_customers:
  assumes "0 \<le> high_percentile s" and "high_percentile s \<le> 1"
    and "0 \<le> medium_percentile s" and "medium_percentile s \<le> 1"
  shows "(length (features s) < 2
            \<longrightarrow> (\<exists>th. calculate_thresholds s = Inr th \<and> recency_threshold th = None))
         \<and> (features s = []
            \<longrightarrow> calculate_thresholds s
                = Inr \<lparr>spending_high = None, spending_medium = None,
                       frequency_high = None, frequency_medium = None,
                       recency_threshold = None\<rparr>)
         \<and> (features s = [f]
            \<longrightarrow> calculate_thresholds s
                = Inr \<lparr>spending_high = Some (total_spending f),
                       spending_medium = Some (total_spending f),
                       frequency_high = Some (real (purchase_frequency f)),
                       frequency_medium = Some (real (purchase_frequency f)),
                       recency_threshold = None\<rparr>)"
proof -
  note e = calculate_thresholds_empty [OF assms]
  note o = calculate_thresholds_single [OF assms]
  have "\<exists>th. calculate_thresholds s = Inr th \<and> recency_threshold th = None"
    if "length (features s) < 2"
  proof (cases "features s")
    case Nil
    then show ?thesis using e by simp
  next
    case (Cons g gs)
    with that have "features s = [g]" by (cases gs) simp_all
    then show ?thesis using o by simp
  qed
  then show ?thesis using e o by blast
qed

lemma single_customer_features:
  "features single_customer_engine =
     [\<lparr>fcustomer = ''C1'', total_spending = 100, purchase_frequency = 1,
       average_purchase_amount = 100, days_since_last_purchase = 10,
       category_share = [(''Books'', Some 1)]\<rparr>]"
  by code_simp

lemma single_customer_percentiles:
  "0 \<le> high_percentile single_customer_engine" "high_percentile single_customer_engine \<le> 1"
  "0 \<le> medium_percentile single_customer_engine" "medium_percentile single_customer_engine \<le> 1"
  by (simp_all add: single_customer_engine_def customer_segmentation_def)

text \<open>The theorem at the engine of a single customer.\<close>

theorem thresholds_of_few_customers_witness:
  "0 \<le> high_percentile single_customer_engine \<and> high_percentile single_customer_engine \<le> 1
   \<and> 0 \<le> medium_percentile single_customer_engine \<and> medium_percentile single_customer_engine \<le> 1
   \<and> length (features single_customer_engine) < 2
   \<and> (\<exists>th. calculate_thresholds single_customer_engine = Inr th \<and> recency_threshold th = None)"
proof -
  have l: "length (features single_customer_engine) < 2"
    by (simp add: single_customer_features)
  from thresholds_of_few_customers [OF single_customer_percentiles] l single_customer_percentiles
  show ?thesis by blast
qed

text \<open>Claim C6 as stated fails: for one customer the thresholds are computed, no exception
  is raised, and the recency threshold is NaN.\<close>

theorem one_customer_thresholds_nan:
  "length (features single_customer_engine) = 1
   \<and> calculate_thresholds single_customer_engine
       = Inr \<lparr>spending_high = Some 100, spending_medium = Some 100,
              frequency_high = Some 1, frequency_medium = Some 1,
              recency_threshold = None\<rparr>"
  using calculate_thresholds_single [OF single_customer_percentiles single_customer_features]
  by (simp add: single_customer_features)

subsection \<open>The segmentation report\<close>





lemma and_then_Inr:
  "and_then m f = Inr y \<longleftrightarrow> (\<exists>x. m = Inr x \<and> f x = Inr y)"
  by (cases m) (simp_all add: and_then_def)














lemma example_segmentation_features: "map fcustomer (features example_segmentation) = [''C1'', ''C2'', ''C3'']"
  by code_simp


subsection \<open>Unknown customers\<close>

text \<open>
  Claim C2.  For a customer that is not in the index of the predictions table,
  \<^verbatim>\<open>get_recommendations\<close> raises nothing and returns the result whose error field
  holds the not-found message and whose recommendation list is empty; for a customer
  that is not in the index of the feature table, \<^verbatim>\<open>get_customer_segment\<close> raises
  nothing and returns \<^verbatim>\<open>None\<close>, leaving the engine as it was.  Every result that
  \<^verbatim>\<open>get_recommendations\<close> returns for a customer of the index has no error, so the
  not-found result differs from every successful one, also from one with an empty list.
\<close>

theorem not_found_results:
  "(cid \<notin> set (index (predictions_df eng))
      \<longrightarrow> get_recommendations sort_values eng cid n
            = Inr \<lparr>res_error = Some (''Customer '' @ cid @ '' not found in database''),
                   recommendations = [], res_customer_id = cid\<rparr>)
   \<and> (cid \<notin> set (map fcustomer (features s))
      \<longrightarrow> get_customer_segment fit_predict clock s cid = Inr (s, None))
   \<and> (cid \<in> set (index (predictions_df eng))
        \<and> get_recommendations sort_values eng cid n = Inr r
      \<longrightarrow> res_error r = None)"
proof -
  have a: "get_recommendations sort_values eng cid n
            = Inr \<lparr>res_error = Some (''Customer '' @ cid @ '' not found in database''),
                   recommendations = [], res_customer_id = cid\<rparr>"
    if "cid \<notin> set (index (predictions_df eng))"
    using that by (simp add: get_recommendations_def)
  have b: "get_customer_segment fit_predict clock s cid = Inr (s, None)"
    if "cid \<notin> set (map fcustomer (features s))"
    using that by (simp add: get_customer_segment_def)
  have c: "res_error r = None"
    if "cid \<in> set (index (predictions_df eng))"
      and "get_recommendations sort_values eng cid n = Inr r"
  proof -
    from that obtain recs where
      "r = \<lparr>res_error = None, recommendations = recs, res_customer_id = cid\<rparr>"
      by (auto simp: get_recommendations_def Let_def and_then_Inr split: if_splits)
    then show ?thesis by simp
  qed
  from a b c show ?thesis by blast
qed

lemma example_recommendation: "get_recommendations sort_values_stable example_engine ''C1'' 1
   = Inr \<lparr>res_error = None,
          recommendations = [\<lparr>rec_product_id = ''P2'', rec_category = ''Grocery'', predicted_rating = 0\<rparr>],
          res_customer_id = ''C1''\<rparr>"
  by code_simp

lemma example_engine_index: "index (predictions_df example_engine) = [''C1'', ''C2'', ''C3'']"
  by code_simp

text \<open>The theorem at the example, for the unknown customer C9 and the known customer C1.\<close>

theorem not_found_results_witness:
  "''C9'' \<notin> set (index (predictions_df example_engine))
   \<and> get_recommendations sort_values_stable example_engine ''C9'' 5
       = Inr \<lparr>res_error = Some ''Customer C9 not found in database'',
              recommendations = [], res_customer_id = ''C9''\<rparr>
   \<and> ''C9'' \<notin> set (map fcustomer (features example_segmentation))
   \<and> get_customer_segment example_fit_predict 0 example_segmentation ''C9''
       = Inr (example_segmentation, None)
   \<and> ''C1'' \<in> set (index (predictions_df example_engine))
   \<and> get_recommendations sort_values_stable example_engine ''C1'' 1
       = Inr \<lparr>res_error = None,
          recommendations = [\<lparr>rec_product_id = ''P2'', rec_category = ''Grocery'', predicted_rating = 0\<rparr>],
          res_customer_id = ''C1''\<rparr>
   \<and> res_error \<lparr>res_error = None,
          recommendations = [\<lparr>rec_product_id = ''P2'', rec_category = ''Grocery'', predicted_rating = 0\<rparr>],
          res_customer_id = ''C1''\<rparr> = None"
  using not_found_results [of "''C9''" example_engine sort_values_stable 5 example_segmentation
      example_fit_predict 0]
    not_found_results [of "''C1''" example_engine sort_values_stable 1 example_segmentation
      example_fit_predict 0]
  by (simp add: example_engine_index example_segmentation_features example_recommendation)

subsection \<open>Recommendations\<close>

lemma build_recommendations_Inr:
  "build_recommendations df tops = Inr recs \<Longrightarrow>
     map (\<lambda>x. (rec_product_id x, predicted_rating x)) recs = tops
     \<and> (\<forall>x \<in> set recs. first_category df (rec_product_id x) = Inr (rec_category x))"
proof (induction tops arbitrary: recs)
  case Nil
  then show ?case by simp
next
  case (Cons a tops)
  obtain p r where a: "a = (p, r)" by (cases a)
  from Cons.prems obtain cat rs where c: "first_category df p = Inr cat"
    and b: "build_recommendations df tops = Inr rs"
    and r: "recs = \<lparr>rec_product_id = p, rec_category = cat, predicted_rating = r\<rparr> # rs"
    by (auto simp: a and_then_Inr)
  from Cons.IH[OF b] c r a show ?case by simp
qed



lemma set_slice_to: "set (slice_to n xs) \<subseteq> set xs"
  by (auto simp: slice_to_def dest: in_set_takeD)

lemma sorted_descending_set: "sorted_descending xs ys \<Longrightarrow> set ys = set xs"
  by (auto simp: sorted_descending_def dest: mset_eq_setD)


lemma not_found_empty:
  "cid \<notin> set (index (predictions_df eng)) \<Longrightarrow>
   get_recommendations sort_values eng cid n = Inr r \<Longrightarrow> recommendations r = []"
  by (auto simp: get_recommendations_def)

lemma found_result:
  "cid \<in> set (index (predictions_df eng)) \<Longrightarrow>
   get_recommendations sort_values eng cid n = Inr r \<Longrightarrow>
   \<exists>recs. build_recommendations (eng_df eng)
          (slice_to n (sort_values (predicted_ratings_of eng cid))) = Inr recs
     \<and> r = \<lparr>res_error = None, recommendations = recs, res_customer_id = cid\<rparr>"
  by (auto simp: get_recommendations_def Let_def and_then_Inr split: if_splits)

lemma recommended_is_candidate:
  assumes "build_recommendations df tops = Inr recs" and "x \<in> set recs"
  shows "(rec_product_id x, predicted_rating x) \<in> set tops"
proof -
  have m: "map (\<lambda>x. (rec_product_id x, predicted_rating x)) recs = tops"
    using build_recommendations_Inr[OF assms(1)] by simp
  have "(rec_product_id x, predicted_rating x)
          \<in> set (map (\<lambda>x. (rec_product_id x, predicted_rating x)) recs)"
    using assms(2) by simp
  then show ?thesis unfolding m .
qed

text \<open>
  Claim C3.  Let the sorter return the predicted ratings of the customer's candidates
  from high to low, as \<^verbatim>\<open>sort_values(ascending=False)\<close> does.  Then every product in a
  recommendation list that \<^verbatim>\<open>get_recommendations\<close> returns, for any customer and any
  requested number (also a negative one), is a column of the purchase matrix whose cell
  in that customer's row is exactly 0.
\<close>

theorem recommendations_never_purchased:
  assumes "sorted_descending (predicted_ratings_of eng cid)
             (sort_values (predicted_ratings_of eng cid))"
    and "get_recommendations sort_values eng cid n = Inr r"
    and "x \<in> set (recommendations r)"
  shows "rec_product_id x \<in> set (columns (purchase_matrix eng))
         \<and> cell (purchase_matrix eng) cid (rec_product_id x) = 0"
proof -
  have found: "cid \<in> set (index (predictions_df eng))"
    using not_found_empty[OF _ assms(2)] assms(3) by fastforce
  from found_result[OF found assms(2)] obtain recs where
    b: "build_recommendations (eng_df eng)
          (slice_to n (sort_values (predicted_ratings_of eng cid))) = Inr recs"
    and r: "r = \<lparr>res_error = None, recommendations = recs, res_customer_id = cid\<rparr>"
    by blast
  from r assms(3) have x: "x \<in> set recs" by simp
  have "(rec_product_id x, predicted_rating x)
          \<in> set (slice_to n (sort_values (predicted_ratings_of eng cid)))"
    using b x by (rule recommended_is_candidate)
  then have "(rec_product_id x, predicted_rating x)
          \<in> set (sort_values (predicted_ratings_of eng cid))"
    using set_slice_to[of n "sort_values (predicted_ratings_of eng cid)"] by (rule_tac subsetD)
  then have "(rec_product_id x, predicted_rating x) \<in> set (predicted_ratings_of eng cid)"
    unfolding sorted_descending_set[OF assms(1)] .
  then have "rec_product_id x \<in> set (not_purchased eng cid)"
    unfolding predicted_ratings_of_def by auto
  then show ?thesis by (simp add: not_purchased_def)
qed

lemma example_candidates: "predicted_ratings_of example_engine ''C1'' = [(''P2'', 0)]"
  by code_simp

lemma example_all_recommendations:
  "get_recommendations sort_values_stable example_engine ''C1'' 5
     = Inr \<lparr>res_error = None,
            recommendations =
              [\<lparr>rec_product_id = ''P2'', rec_category = ''Grocery'', predicted_rating = 0\<rparr>],
            res_customer_id = ''C1''\<rparr>"
  by code_simp

text \<open>The theorem at customer C1 of the example, who bought P1 and not P2.\<close>

theorem recommendations_never_purchased_witness:
  "sorted_descending (predicted_ratings_of example_engine ''C1'')
     (sort_values_stable (predicted_ratings_of example_engine ''C1''))
   \<and> get_recommendations sort_values_stable example_engine ''C1'' 5
     = Inr \<lparr>res_error = None,
            recommendations =
              [\<lparr>rec_product_id = ''P2'', rec_category = ''Grocery'', predicted_rating = 0\<rparr>],
            res_customer_id = ''C1''\<rparr>
   \<and> ''P2'' \<in> set (columns (purchase_matrix example_engine))
   \<and> cell (purchase_matrix example_engine) ''C1'' ''P2'' = 0"
proof -
  have s: "sorted_descending (predicted_ratings_of example_engine ''C1'')
     (sort_values_stable (predicted_ratings_of example_engine ''C1''))"
    by (simp add: example_candidates sorted_descending_def sort_values_stable_def)
  have x: "\<lparr>rec_product_id = ''P2'', rec_category = ''Grocery'', predicted_rating = 0\<rparr>
           \<in> set (recommendations \<lparr>res_error = None,
            recommendations =
              [\<lparr>rec_product_id = ''P2'', rec_category = ''Grocery'', predicted_rating = 0\<rparr>],
            res_customer_id = ''C1''\<rparr>)"
    by simp
  from recommendations_never_purchased [of example_engine "''C1''" sort_values_stable 5, OF s
      example_all_recommendations x]
  show ?thesis using s example_all_recommendations by simp
qed














subsection \<open>The latent factor predictor\<close>








text \<open>The constructor establishes the invariant the ranking theorems assume.\<close>

lemma load_and_process_data_engine_ok:
  "load_and_process_data svds df n = Inr eng \<Longrightarrow> engine_ok eng \<and> eng_df eng = df"
  by (auto simp: load_and_process_data_def Let_def and_then_Inr data_frame_def engine_ok_def
           split: if_splits)





end
